theory Spec2Isabelle
  imports Main "HOL-Library.Word"
begin

section \<open>Document intake and approval: the edge function \<open>documents\<close>\<close>

text \<open>
  The embedding follows \<^verbatim>\<open>supabase/functions/documents/index.ts\<close> and the tables of
  \<^verbatim>\<open>supabase/migrations/20250919000000_documents_schema.sql\<close>.

  The handlers are \<^verbatim>\<open>async\<close> functions over a hosted datastore. Here a handler is
  a function from the datastore's tables to a result and the tables afterwards. The result
  is a sum: \<open>Inr\<close> the HTTP response the handler returns, \<open>Inl\<close> the exception it lets
  escape (a rejected promise nobody catches). Everything the handler obtains from outside
  (the identity provider, the PDF library, the text-generation endpoint, generated
  identifiers, the clock, a datastore call that is refused) is read from a record \<open>env\<close>,
  fixed for one request.

  The datastore is its tables with the constraints and the row-level policies of the
  schema. A call the service answers with an error for a reason outside the tables is an
  outcome of \<open>env\<close>; that covers a policy that rejects a write. Where a policy narrows
  a call without an error, on reading documents and on updating them, it is part of the
  embedding.
\<close>

subsection \<open>Strings\<close>

text \<open>
  A JavaScript string is modelled as a \<open>string\<close>, one \<open>char\<close> per code unit, so only
  code units below 256 are represented. \<^verbatim>\<open>if (s)\<close> on a string tests that it is not
  empty.
\<close>

definition truthy :: "string \<Rightarrow> bool" where
  "truthy s = (s \<noteq> [])"

text \<open>White space and line terminators of \<^verbatim>\<open>String.prototype.trim\<close>, in the 8-bit range:
  TAB, LF, VT, FF, CR, SP and NBSP.\<close>

definition isWhiteSpace :: "char \<Rightarrow> bool" where
  "isWhiteSpace c = ((of_char c :: nat) \<in> set [9, 10, 11, 12, 13, 32, 160])"

definition trim :: "string \<Rightarrow> string" where
  "trim s = rev (dropWhile isWhiteSpace (rev (dropWhile isWhiteSpace s)))"

text \<open>\<^verbatim>\<open>Array.prototype.join\<close> on an array of strings.\<close>

fun join :: "string \<Rightarrow> string list \<Rightarrow> string" where
  "join sep [] = []"
| "join sep [x] = x"
| "join sep (x # y # ys) = x @ sep @ join sep (y # ys)"

text \<open>\<^verbatim>\<open>s.replace(pat, rep)\<close> with a string pattern: the first occurrence only.\<close>

fun replace_first :: "string \<Rightarrow> string \<Rightarrow> string \<Rightarrow> string" where
  "replace_first pat rep [] = (if pat = [] then rep else [])"
| "replace_first pat rep (c # cs) =
     (if take (length pat) (c # cs) = pat then rep @ drop (length pat) (c # cs)
      else c # replace_first pat rep cs)"

definition newline :: string where
  "newline = [CHR 0x0A]"

subsection \<open>Tables of the schema\<close>

datatype doc_status = pending | approved | rejected

record document =
  id_d :: string
  title :: string
  file_url :: string
  parsed_text :: "string option"
  summary :: "string option"
  status :: doc_status
  created_at :: nat
  created_by :: "string option"

text \<open>A row of \<^verbatim>\<open>document_assignments\<close>; its generated surrogate key is left out, the
  constraint \<^verbatim>\<open>unique (doc_id, user_id)\<close> is the one the handlers can violate.\<close>

text \<open>A row of \<^verbatim>\<open>users\<close>, with the columns the policies and the foreign key read (the
  name and the email are left out).\<close>

record user_row =
  u_id :: string
  u_role :: string

record assignment =
  doc_id :: string
  user_id :: string
  assigned_at :: nat

type_synonym bytes = "8 word list"

record storage_object =
  obj_path :: string
  obj_type :: string
  obj_bytes :: bytes

record db =
  users :: "user_row list"
  documents :: "document list"
  document_assignments :: "assignment list"
  storage :: "storage_object list"

text \<open>The columns of \<^verbatim>\<open>select('id,title,file_url,summary,status,created_at')\<close>.\<close>

record doc_view =
  v_id :: string
  v_title :: string
  v_file_url :: string
  v_summary :: "string option"
  v_status :: doc_status
  v_created_at :: nat

definition select_cols :: "document \<Rightarrow> doc_view" where
  "select_cols d =
     \<lparr>v_id = id_d d, v_title = title d, v_file_url = file_url d, v_summary = summary d,
      v_status = status d, v_created_at = created_at d\<rparr>"

subsection \<open>Requests, responses, the environment of one request\<close>

record auth_user =
  id_u :: string
  role :: "string option"

record upload_file =
  file_name :: string
  file_type :: string
  content :: bytes

record form =
  form_file :: "upload_file option"
  form_title :: "string option"

text \<open>
  The body of an approve request, as far as the handler looks at it. The declared type
  \<^verbatim>\<open>{ userIds?: string[] }\<close> is a cast that checks nothing, so the parsed body is any
  JSON value. \<open>JsonNull\<close> is the body \<^verbatim>\<open>null\<close>; \<open>JsonValue u\<close> is any other value,
  with \<open>u\<close> what \<^verbatim>\<open>body.userIds\<close> reads from it:
  \<^item> \<open>Absent\<close>: \<^verbatim>\<open>undefined\<close>, for an object without the field and for a body that is
    a number, a string, a boolean or an array;
  \<^item> \<open>IsNull\<close>: the field is \<^verbatim>\<open>null\<close>;
  \<^item> \<open>StringArray us\<close>: an array, its elements taken as strings, as declared;
  \<^item> \<open>NotArray positive\<close>: any other value (a string, a number, a boolean, an object),
    which has no function \<^verbatim>\<open>map\<close>; \<open>positive\<close> is what \<^verbatim>\<open>userIds.length > 0\<close>
    evaluates to on it (true for a non-empty string, false for a number or a boolean).
\<close>

datatype userIds_value = Absent | IsNull | StringArray "string list" | NotArray bool

datatype approve_json = JsonNull | JsonValue userIds_value

text \<open>
  \<open>formData\<close> and \<open>json\<close> are the outcomes of \<^verbatim>\<open>req.formData()\<close> and
  \<^verbatim>\<open>req.json()\<close>: \<open>None\<close> when the promise rejects (no body, or a body that does not
  parse). A header is \<open>None\<close> when \<^verbatim>\<open>req.headers.get\<close> returns \<^verbatim>\<open>null\<close>.
\<close>

record request =
  req_method :: string
  url_pathname :: string
  authorization :: "string option"
  x_mock_role :: "string option"
  x_mock_user_id :: "string option"
  formData :: "form option"
  json :: "approve_json option"

datatype db_error = unique_violation | foreign_key_violation | already_exists | refused string

datatype body =
    Text string
  | ErrorJson string
  | DbErrorJson db_error
  | UploadJson string string string string
  | RowsJson "doc_view list"
  | OkJson

record response =
  http_status :: nat
  body :: body

datatype exn = FormDataError | FetchError | JsonError | TypeError

text \<open>What \<^verbatim>\<open>resp.json()\<close> gives on the text-generation endpoint's answer: a rejection,
  or a payload, of which the handler reads the first candidate's first text part.\<close>

datatype payload = NotJson | Candidates "string option"

datatype fetch_result = Rejects | Resolves bool payload

datatype call =
    storage_upload | insert_document | update_parsed_text | update_summary
  | select_pending | update_status | insert_assignments | select_approved
  | select_assignments

text \<open>
  \<open>refuses c\<close> is the message of the error the hosted service answers call \<open>c\<close> with, for
  a reason outside the tables (unreachable, a policy, a malformed identifier); \<open>None\<close>
  when the call is carried out on the tables. \<open>pdfjs\<close> gives the text items of each page,
  \<open>None\<close> for a page, or for the whole document, where the library throws.
\<close>

record env =
  GEMINI_API_KEY :: "string option"
  getUser :: "string \<Rightarrow> auth_user option"
  randomUUID :: string
  getPublicUrl :: "string \<Rightarrow> string"
  pdfjs :: "bytes \<Rightarrow> string list option list option"
  fetch :: "string \<Rightarrow> string \<Rightarrow> fetch_result"
  gen_random_uuid :: string
  now :: nat
  refuses :: "call \<Rightarrow> string option"

subsection \<open>Row-level policies\<close>

text \<open>
  The datastore client is created with the anonymous key, and line 186 puts the request's
  \<^verbatim>\<open>Authorization\<close> header on it before any handler runs. So the datastore's
  \<^verbatim>\<open>auth.uid()\<close> is the id of the user the bearer token belongs to, and \<^verbatim>\<open>null\<close>
  for a request without a valid token; the mock headers never reach the datastore.
\<close>

definition auth_uid :: "env \<Rightarrow> request \<Rightarrow> string option" where
  "auth_uid e req =
     (case authorization req of
        None \<Rightarrow> None
      | Some authHeader \<Rightarrow>
          if truthy authHeader
          then map_option id_u (getUser e (replace_first ''Bearer '' [] authHeader))
          else None)"

text \<open>The condition of the policies \<^verbatim>\<open>documents_admin_all\<close> and
  \<^verbatim>\<open>assignments_admin_all\<close>: a row of \<^verbatim>\<open>users\<close> with the caller's id and the role
  admin.\<close>

definition db_admin :: "db \<Rightarrow> string option \<Rightarrow> bool" where
  "db_admin st uid =
     (case uid of
        None \<Rightarrow> False
      | Some i \<Rightarrow> list_ex (\<lambda>u. u_id u = i \<and> u_role u = ''admin'') (users st))"

text \<open>The rows of \<^verbatim>\<open>documents\<close> a caller may read: all of them by
  \<^verbatim>\<open>documents_admin_all\<close>, and by \<^verbatim>\<open>documents_employee_select_assigned\<close> the
  approved ones that have an assignment row with the caller's id.\<close>

definition may_select :: "db \<Rightarrow> string option \<Rightarrow> document \<Rightarrow> bool" where
  "may_select st uid d =
     (db_admin st uid
      \<or> (status d = approved
          \<and> (case uid of
                None \<Rightarrow> False
              | Some i \<Rightarrow> list_ex (\<lambda>a. doc_id a = id_d d \<and> user_id a = i)
                           (document_assignments st))))"

subsection \<open>Datastore calls\<close>

text \<open>
  Each call on \<^verbatim>\<open>documents\<close> takes the caller's \<^verbatim>\<open>auth.uid()\<close>. The rows of
  \<^verbatim>\<open>document_assignments\<close> may be read by every caller
  (\<^verbatim>\<open>assignments_employee_select_self\<close>), and the policies on the two tables check
  nothing on an inserted row (\<^verbatim>\<open>with check (true)\<close>); an insert the datastore
  rejects all the same, as it does where the caller may not read the row it asks back, is
  an outcome of \<open>env\<close>.
\<close>

text \<open>\<^verbatim>\<open>storage.from('documents').upload(path, bytes, {upsert: false})\<close>.\<close>

definition storage_upload_op :: "env \<Rightarrow> db \<Rightarrow> string \<Rightarrow> bytes \<Rightarrow> string \<Rightarrow> db_error + db" where
  "storage_upload_op e st path bs ctype =
     (case refuses e storage_upload of
        Some m \<Rightarrow> Inl (refused m)
      | None \<Rightarrow>
          if path \<in> set (map obj_path (storage st)) then Inl already_exists
          else Inr (st\<lparr>storage := storage st @
                  [\<lparr>obj_path = path, obj_type = ctype, obj_bytes = bs\<rparr>]\<rparr>))"

text \<open>\<^verbatim>\<open>from('documents').insert({title, file_url, status: 'pending', created_by})
  .select('*').single()\<close>: the primary key and the reference to \<^verbatim>\<open>users\<close> are checked,
  the other columns take the schema's defaults.\<close>

definition insert_document_op ::
  "env \<Rightarrow> db \<Rightarrow> string \<Rightarrow> string \<Rightarrow> string option \<Rightarrow> db_error + (document \<times> db)" where
  "insert_document_op e st t url creator =
     (case refuses e insert_document of
        Some m \<Rightarrow> Inl (refused m)
      | None \<Rightarrow>
          if gen_random_uuid e \<in> set (map id_d (documents st)) then Inl unique_violation
          else if (case creator of None \<Rightarrow> False | Some u \<Rightarrow> u \<notin> set (map u_id (users st)))
          then Inl foreign_key_violation
          else
            (let doc = \<lparr>id_d = gen_random_uuid e, title = t, file_url = url,
                        parsed_text = None, summary = None, status = pending,
                        created_at = now e, created_by = creator\<rparr>
             in Inr (doc, st\<lparr>documents := documents st @ [doc]\<rparr>)))"

text \<open>\<^verbatim>\<open>from('documents').update(...).eq('id', i)\<close>. The only policy that lets a row
  be updated is \<^verbatim>\<open>documents_admin_all\<close>: for any other caller the statement updates no
  row and reports no error.\<close>

definition update_documents ::
  "env \<Rightarrow> call \<Rightarrow> string option \<Rightarrow> db \<Rightarrow> string \<Rightarrow> (document \<Rightarrow> document)
     \<Rightarrow> db_error option \<times> db" where
  "update_documents e c uid st i f =
     (case refuses e c of
        Some m \<Rightarrow> (Some (refused m), st)
      | None \<Rightarrow>
          if db_admin st uid
          then (None, st\<lparr>documents := map (\<lambda>d. if id_d d = i then f d else d) (documents st)\<rparr>)
          else (None, st))"

definition assignment_key :: "assignment \<Rightarrow> string \<times> string" where
  "assignment_key a = (doc_id a, user_id a)"

text \<open>\<^verbatim>\<open>from('document_assignments').insert(rows)\<close>: one statement, so either every row
  is stored or none is. A row that repeats a stored pair, or another row of the statement,
  breaks \<^verbatim>\<open>unique (doc_id, user_id)\<close>; a row of an unknown document breaks the foreign
  key.\<close>

definition insert_assignments_op ::
  "env \<Rightarrow> db \<Rightarrow> (string \<times> string) list \<Rightarrow> db_error option \<times> db" where
  "insert_assignments_op e st rows =
     (case refuses e insert_assignments of
        Some m \<Rightarrow> (Some (refused m), st)
      | None \<Rightarrow>
          if \<not> (distinct rows \<and>
                list_all (\<lambda>r. r \<notin> set (map assignment_key (document_assignments st))) rows)
          then (Some unique_violation, st)
          else if \<not> list_all (\<lambda>r. fst r \<in> set (map id_d (documents st))) rows
          then (Some foreign_key_violation, st)
          else (None, st\<lparr>document_assignments := document_assignments st @
                  map (\<lambda>r. \<lparr>doc_id = fst r, user_id = snd r, assigned_at = now e\<rparr>) rows\<rparr>))"

text \<open>\<^verbatim>\<open>.order('created_at', { ascending: false })\<close>; rows of equal time keep the
  reverse of their order in the table.\<close>

definition order_desc :: "document list \<Rightarrow> document list" where
  "order_desc ds = rev (sort_key created_at ds)"

text \<open>\<^verbatim>\<open>from('documents').select(...)\<close> with a condition on the status: the rows of
  that status the caller may read.\<close>

definition select_documents ::
  "env \<Rightarrow> call \<Rightarrow> string option \<Rightarrow> db \<Rightarrow> doc_status \<Rightarrow> db_error + doc_view list" where
  "select_documents e c uid st s =
     (case refuses e c of
        Some m \<Rightarrow> Inl (refused m)
      | None \<Rightarrow>
          Inr (map select_cols
                 (order_desc (filter (\<lambda>d. status d = s \<and> may_select st uid d) (documents st)))))"

text \<open>\<^verbatim>\<open>from('document_assignments').select('doc_id,user_id').eq('user_id', u)\<close>.\<close>

definition select_assignments_op :: "env \<Rightarrow> db \<Rightarrow> string \<Rightarrow> db_error + (string \<times> string) list" where
  "select_assignments_op e st u =
     (case refuses e select_assignments of
        Some m \<Rightarrow> Inl (refused m)
      | None \<Rightarrow> Inr (map assignment_key (filter (\<lambda>a. user_id a = u) (document_assignments st))))"

subsection \<open>Access resolver\<close>

definition getAuthUser :: "env \<Rightarrow> request \<Rightarrow> auth_user option" where
  "getAuthUser e req =
     (case (case authorization req of
              None \<Rightarrow> None
            | Some authHeader \<Rightarrow>
                if truthy authHeader
                then getUser e (replace_first ''Bearer '' [] authHeader)
                else None) of
        Some u \<Rightarrow> Some u
      | None \<Rightarrow>
          (case x_mock_role req of
             None \<Rightarrow> None
           | Some mockRole \<Rightarrow>
               (case x_mock_user_id req of
                  None \<Rightarrow> None
                | Some mockUserId \<Rightarrow>
                    if truthy mockRole \<and> truthy mockUserId
                    then Some \<lparr>id_u = mockUserId, role = Some mockRole\<rparr>
                    else None)))"

definition isAdmin :: "auth_user option \<Rightarrow> bool" where
  "isAdmin user = (case user of None \<Rightarrow> False | Some u \<Rightarrow> role u = Some ''admin'')"

subsection \<open>Text extractor\<close>

text \<open>The page loop of \<^verbatim>\<open>parsePdfToText\<close>; \<open>None\<close> when a page throws.\<close>

fun pages_loop :: "string list option list \<Rightarrow> string \<Rightarrow> string option" where
  "pages_loop [] text = Some text"
| "pages_loop (None # ps) text = None"
| "pages_loop (Some items # ps) text = pages_loop ps (text @ join '' '' items @ newline)"

definition parsePdfToText :: "env \<Rightarrow> bytes \<Rightarrow> string" where
  "parsePdfToText e fileBytes =
     (case pdfjs e fileBytes of
        None \<Rightarrow> []
      | Some pages \<Rightarrow>
          (case pages_loop pages [] of
             None \<Rightarrow> []
           | Some text \<Rightarrow> trim text))"

subsection \<open>Summarizer\<close>

definition gemini_url :: string where
  "gemini_url = ''https://generativelanguage.googleapis.com/v1beta/models/gemini-1.5-flash:generateContent?key=''"

definition prompt :: "string \<Rightarrow> string" where
  "prompt text =
     ''Summarize this document and extract: date of issue, who issued it, to whom it is addressed, important details, important names, and any critical information. Return a concise, structured summary.''
     @ newline @ newline @ ''Document Text:'' @ newline @ take 120000 text"

definition summarizeWithGemini :: "env \<Rightarrow> string \<Rightarrow> exn + string" where
  "summarizeWithGemini e text =
     (case GEMINI_API_KEY e of
        None \<Rightarrow> Inr []
      | Some key \<Rightarrow>
          if \<not> truthy key then Inr []
          else
            (case fetch e (gemini_url @ key) (prompt text) of
               Rejects \<Rightarrow> Inl FetchError
             | Resolves ok data \<Rightarrow>
                 if \<not> ok then Inr []
                 else
                   (case data of
                      NotJson \<Rightarrow> Inl JsonError
                    | Candidates None \<Rightarrow> Inr (trim [])
                    | Candidates (Some textOut) \<Rightarrow> Inr (trim textOut))))"

subsection \<open>Handlers\<close>

definition fallback_text :: "string \<Rightarrow> string" where
  "fallback_text url = ''The document is at '' @ url @ ''. Summarize based on its content.''"

text \<open>
  \<^verbatim>\<open>handleUpload\<close> is given in three parts, in the order of its lines: the title
  (line 94), the body after the document row is inserted (lines 119 to 131: extraction,
  summarization, the confirmation), and the handler with its gates, the stored file and the
  inserted row. The results of the two \<^verbatim>\<open>update\<close> calls are not looked at by the
  source, so only the tables after them are kept.
\<close>

definition upload_title :: "form \<Rightarrow> string" where
  "upload_title fm =
     (let dflt = (case form_file fm of None \<Rightarrow> ''Untitled'' | Some f \<Rightarrow> file_name f)
      in case form_title fm of
           None \<Rightarrow> dflt
         | Some s \<Rightarrow> if truthy s then s else dflt)"

definition upload_process ::
  "env \<Rightarrow> string option \<Rightarrow> bytes \<Rightarrow> string \<Rightarrow> string \<Rightarrow> document \<Rightarrow> db
     \<Rightarrow> (exn + response) \<times> db" where
  "upload_process e uid bs t publicUrl doc st2 =
     (let parsedText = parsePdfToText e bs;
          st3 = snd (update_documents e update_parsed_text uid st2 (id_d doc)
                  (\<lambda>d. d\<lparr>parsed_text := Some parsedText\<rparr>))
      in case summarizeWithGemini e
                (if truthy parsedText then parsedText else fallback_text publicUrl) of
           Inl x \<Rightarrow> (Inl x, st3)
         | Inr s \<Rightarrow>
             (Inr \<lparr>http_status = 200, body = UploadJson (id_d doc) t publicUrl ''pending''\<rparr>,
              snd (update_documents e update_summary uid st3 (id_d doc)
                     (\<lambda>d. d\<lparr>summary := Some s\<rparr>))))"

text \<open>The storage key of line 101, the content type of line 105 and the public URL of
  line 109 of the uploaded file.\<close>

definition storagePath :: "env \<Rightarrow> upload_file \<Rightarrow> string" where
  "storagePath e f = randomUUID e @ ''-'' @ file_name f"

definition contentType :: "upload_file \<Rightarrow> string" where
  "contentType f = (if truthy (file_type f) then file_type f else ''application/pdf'')"

definition publicUrl :: "env \<Rightarrow> upload_file \<Rightarrow> string" where
  "publicUrl e f = getPublicUrl e (storagePath e f)"

text \<open>\<^verbatim>\<open>created_by: user.id\<close> is read only behind the admin gate, where \<open>user\<close> is
  not \<open>None\<close>.\<close>

definition handleUpload ::
  "env \<Rightarrow> request \<Rightarrow> auth_user option \<Rightarrow> db \<Rightarrow> (exn + response) \<times> db" where
  "handleUpload e req user st =
     (if \<not> isAdmin user then (Inr \<lparr>http_status = 403, body = Text ''Forbidden''\<rparr>, st)
      else case formData req of
        None \<Rightarrow> (Inl FormDataError, st)
      | Some fm \<Rightarrow>
          (case form_file fm of
             None \<Rightarrow> (Inr \<lparr>http_status = 400, body = ErrorJson ''file required''\<rparr>, st)
           | Some f \<Rightarrow>
               (case storage_upload_op e st (storagePath e f) (content f) (contentType f) of
                  Inl uploadErr \<Rightarrow>
                    (Inr \<lparr>http_status = 500, body = DbErrorJson uploadErr\<rparr>, st)
                | Inr st1 \<Rightarrow>
                    (case insert_document_op e st1 (upload_title fm) (publicUrl e f)
                            (map_option id_u user) of
                       Inl insertErr \<Rightarrow>
                         (Inr \<lparr>http_status = 500, body = DbErrorJson insertErr\<rparr>, st1)
                     | Inr (doc, st2) \<Rightarrow>
                         upload_process e (auth_uid e req) (content f) (upload_title fm)
                           (publicUrl e f) doc st2))))"

definition handlePending ::
  "env \<Rightarrow> request \<Rightarrow> auth_user option \<Rightarrow> db \<Rightarrow> (exn + response) \<times> db" where
  "handlePending e req user st =
     (if \<not> isAdmin user then (Inr \<lparr>http_status = 403, body = Text ''Forbidden''\<rparr>, st)
      else
        (case select_documents e select_pending (auth_uid e req) st pending of
           Inl err \<Rightarrow> (Inr \<lparr>http_status = 500, body = DbErrorJson err\<rparr>, st)
         | Inr data \<Rightarrow> (Inr \<lparr>http_status = 200, body = RowsJson data\<rparr>, st)))"

text \<open>
  \<^verbatim>\<open>req.json().catch(() => ({}))\<close> gives the empty object where the body does not parse.
  Reading \<^verbatim>\<open>body.userIds\<close> (line 148) throws a \<^verbatim>\<open>TypeError\<close> on the body
  \<^verbatim>\<open>null\<close>, before the status update; \<^verbatim>\<open>userIds.map\<close> (line 154) throws one on a
  value that is not an array, after it.
\<close>

definition handleApprove ::
  "env \<Rightarrow> request \<Rightarrow> auth_user option \<Rightarrow> string \<Rightarrow> db \<Rightarrow> (exn + response) \<times> db" where
  "handleApprove e req user i st =
     (if \<not> isAdmin user then (Inr \<lparr>http_status = 403, body = Text ''Forbidden''\<rparr>, st)
      else
        (case (case json req of None \<Rightarrow> JsonValue Absent | Some j \<Rightarrow> j) of
           JsonNull \<Rightarrow> (Inl TypeError, st)
         | JsonValue u \<Rightarrow>
             (let userIds = (case u of
                               Absent \<Rightarrow> Inl []
                             | IsNull \<Rightarrow> Inl []
                             | StringArray us \<Rightarrow> Inl us
                             | NotArray positive \<Rightarrow> Inr positive)
              in
                (case update_documents e update_status (auth_uid e req) st i
                        (\<lambda>d. d\<lparr>status := approved\<rparr>) of
                   (Some upErr, st1) \<Rightarrow>
                     (Inr \<lparr>http_status = 500, body = DbErrorJson upErr\<rparr>, st1)
                 | (None, st1) \<Rightarrow>
                     (case userIds of
                        Inl uids \<Rightarrow>
                          if length uids > 0 then
                            (case insert_assignments_op e st1 (map (\<lambda>uid. (i, uid)) uids) of
                               (Some insErr, st2) \<Rightarrow>
                                 (Inr \<lparr>http_status = 500, body = DbErrorJson insErr\<rparr>, st2)
                             | (None, st2) \<Rightarrow> (Inr \<lparr>http_status = 200, body = OkJson\<rparr>, st2))
                          else (Inr \<lparr>http_status = 200, body = OkJson\<rparr>, st1)
                      | Inr positive \<Rightarrow>
                          if positive then (Inl TypeError, st1)
                          else (Inr \<lparr>http_status = 200, body = OkJson\<rparr>, st1))))))"

definition handleApprovedForUser ::
  "env \<Rightarrow> request \<Rightarrow> auth_user option \<Rightarrow> string \<Rightarrow> db \<Rightarrow> (exn + response) \<times> db" where
  "handleApprovedForUser e req user userId st =
     (case select_documents e select_approved (auth_uid e req) st approved of
        Inl err \<Rightarrow> (Inr \<lparr>http_status = 500, body = DbErrorJson err\<rparr>, st)
      | Inr data \<Rightarrow>
          (let assigns = (case select_assignments_op e st userId of Inl err \<Rightarrow> [] | Inr rows \<Rightarrow> rows);
               allowed = set (map fst assigns);
               filtered = filter (\<lambda>d. v_id d \<in> allowed) data
           in (Inr \<lparr>http_status = 200, body = RowsJson filtered\<rparr>, st)))"

subsection \<open>Routing\<close>

definition function_prefix :: string where
  "function_prefix = ''/functions/v1/documents''"

definition route_path :: "request \<Rightarrow> string" where
  "route_path req =
     (let p = url_pathname req;
          q = (if take (length function_prefix) p = function_prefix
               then drop (length function_prefix) p else p)
      in if q = [] then ''/'' else q)"

text \<open>In a regular expression \<^verbatim>\<open>.\<close> matches no line terminator (LF and CR in the 8-bit
  range).\<close>

definition isLineTerminator :: "char \<Rightarrow> bool" where
  "isLineTerminator c = ((of_char c :: nat) \<in> set [10, 13])"

text \<open>\<^verbatim>\<open>pathname.match(/^\/(.*)\/approve$/)\<close>, giving the captured group.\<close>

definition approveMatch :: "string \<Rightarrow> string option" where
  "approveMatch p =
     (case p of
        [] \<Rightarrow> None
      | c # cs \<Rightarrow>
          if c = CHR ''/'' \<and> length ''/approve'' \<le> length cs
             \<and> drop (length cs - length ''/approve'') cs = ''/approve''
             \<and> filter isLineTerminator (take (length cs - length ''/approve'') cs) = []
          then Some (take (length cs - length ''/approve'') cs)
          else None)"

text \<open>\<^verbatim>\<open>pathname.match(/^\/approved\/(.*)$/)\<close>, giving the captured group.\<close>

definition approvedForUserMatch :: "string \<Rightarrow> string option" where
  "approvedForUserMatch p =
     (if take (length ''/approved/'') p = ''/approved/''
         \<and> filter isLineTerminator (drop (length ''/approved/'') p) = []
      then Some (drop (length ''/approved/'') p)
      else None)"

definition serve :: "env \<Rightarrow> request \<Rightarrow> db \<Rightarrow> (exn + response) \<times> db" where
  "serve e req st =
     (let pathname = route_path req;
          user = getAuthUser e req
      in
        if req_method req = ''POST'' \<and> pathname = ''/upload'' then handleUpload e req user st
        else if req_method req = ''GET'' \<and> pathname = ''/pending'' then handlePending e req user st
        else
          (case (if req_method req = ''POST'' then approveMatch pathname else None) of
             Some i \<Rightarrow> handleApprove e req user i st
           | None \<Rightarrow>
               (case (if req_method req = ''GET'' then approvedForUserMatch pathname else None) of
                  Some userId \<Rightarrow> handleApprovedForUser e req user userId st
                | None \<Rightarrow> (Inr \<lparr>http_status = 404, body = Text ''Not Found''\<rparr>, st))))"


subsection \<open>The extractor as the specification words it\<close>

text \<open>
  Section 4.2 of the specification: a parsing failure gives the empty string; otherwise the
  text of the pages, separated by a newline, trimmed. The text of a page is its items
  joined by a blank. This definition follows the specification and is compared with
  \<open>parsePdfToText\<close> below.
\<close>

definition extract_spec :: "string list option list option \<Rightarrow> string" where
  "extract_spec parsed =
     (case parsed of
        None \<Rightarrow> []
      | Some pages \<Rightarrow>
          (case those pages of
             None \<Rightarrow> []
           | Some texts \<Rightarrow> trim (join newline (map (join '' '') texts))))"

subsection \<open>The visibility query as the specification words it\<close>

text \<open>
  Section 4.7 of the specification, \<^verbatim>\<open>listVisibleFor(userId)\<close>: all documents with
  status approved and an existing assignment row for that user, in the order of the
  datastore's answer, with the columns the handler selects.
\<close>

definition listVisibleFor :: "db \<Rightarrow> string \<Rightarrow> doc_view list" where
  "listVisibleFor st u =
     map select_cols
       (filter (\<lambda>d. status d = approved
                  \<and> (id_d d, u) \<in> set (map assignment_key (document_assignments st)))
          (order_desc (documents st)))"

text \<open>The documents table after the status update of line 150, when it is carried out.\<close>

definition set_approved :: "string \<Rightarrow> document list \<Rightarrow> document list" where
  "set_approved i ds = map (\<lambda>d. if id_d d = i then d\<lparr>status := approved\<rparr> else d) ds"

text \<open>The tables after that update, for a caller with the given \<^verbatim>\<open>auth.uid()\<close>.\<close>

definition status_updated :: "db \<Rightarrow> string option \<Rightarrow> string \<Rightarrow> db" where
  "status_updated st uid i =
     (if db_admin st uid then st\<lparr>documents := set_approved i (documents st)\<rparr> else st)"

subsection \<open>Concrete tables, environments and requests\<close>

definition doc1 :: document where
  "doc1 = \<lparr>id_d = ''d1'', title = ''Q1 Report'', file_url = ''https://files/r1-report.pdf'',
           parsed_text = None, summary = None, status = pending, created_at = 1,
           created_by = Some ''a1''\<rparr>"

definition admin_row :: user_row where
  "admin_row = \<lparr>u_id = ''a1'', u_role = ''admin''\<rparr>"

definition db1 :: db where
  "db1 = \<lparr>users = [admin_row], documents = [doc1], document_assignments = [], storage = []\<rparr>"

text \<open>The identity provider knows the token of the admin a1 and the token of the employee
  u3.\<close>

definition provider :: "string \<Rightarrow> auth_user option" where
  "provider t =
     (if t = ''tok-a1'' then Some \<lparr>id_u = ''a1'', role = Some ''admin''\<rparr>
      else if t = ''tok-u3'' then Some \<lparr>id_u = ''u3'', role = Some ''employee''\<rparr>
      else None)"

text \<open>An environment where every call is carried out and the endpoint answers with a
  summary; the PDF library fails on every file.\<close>

definition env_ok :: env where
  "env_ok = \<lparr>GEMINI_API_KEY = Some ''key'', getUser = provider, randomUUID = ''r2'',
             getPublicUrl = (\<lambda>p. ''https://files/'' @ p), pdfjs = (\<lambda>b. None),
             fetch = (\<lambda>u p. Resolves True (Candidates (Some '' Summary ''))),
             gen_random_uuid = ''d2'', now = 2, refuses = (\<lambda>c. None)\<rparr>"

definition admin :: "auth_user option" where
  "admin = Some \<lparr>id_u = ''a1'', role = Some ''admin''\<rparr>"

definition req_base :: request where
  "req_base = \<lparr>req_method = ''GET'', url_pathname = ''/'', authorization = None,
               x_mock_role = None, x_mock_user_id = None, formData = None, json = None\<rparr>"

text \<open>An employee, by the mock headers, posting an approval.\<close>

definition req_employee_approve :: request where
  "req_employee_approve =
     req_base\<lparr>req_method := ''POST'', url_pathname := ''/functions/v1/documents/d1/approve'',
              x_mock_role := Some ''employee'', x_mock_user_id := Some ''u1'',
              json := Some (JsonValue (StringArray [''u1'']))\<rparr>"

text \<open>Mock headers claiming the admin role, the first with an empty user id.\<close>

definition req_mock_admin_blank_id :: request where
  "req_mock_admin_blank_id =
     req_base\<lparr>req_method := ''POST'', url_pathname := ''/functions/v1/documents/d1/approve'',
              x_mock_role := Some ''admin'', x_mock_user_id := Some []\<rparr>"

definition req_mock_admin :: request where
  "req_mock_admin =
     req_base\<lparr>req_method := ''POST'', url_pathname := ''/functions/v1/documents/d1/approve'',
              x_mock_role := Some ''admin'', x_mock_user_id := Some ''a1''\<rparr>"

definition doc1_approved :: document where
  "doc1_approved = doc1\<lparr>status := approved\<rparr>"

text \<open>The lists of approved documents, asked for without any credential, and by the
  employee u3 and by the admin with their tokens.\<close>

definition req_anonymous_list :: request where
  "req_anonymous_list = req_base\<lparr>url_pathname := ''/functions/v1/documents/approved/u3''\<rparr>"

definition req_u3_list :: request where
  "req_u3_list = req_base\<lparr>url_pathname := ''/functions/v1/documents/approved/u3'',
                         authorization := Some ''Bearer tok-u3''\<rparr>"

definition req_admin_list :: request where
  "req_admin_list = req_base\<lparr>url_pathname := ''/functions/v1/documents/approved/u1'',
                            authorization := Some ''Bearer tok-a1''\<rparr>"

text \<open>The admin's approve requests for document d1, with the admin's token, and the tables
  they lead to from \<open>db1\<close>.\<close>

definition req_approve :: request where
  "req_approve =
     req_base\<lparr>req_method := ''POST'', url_pathname := ''/functions/v1/documents/d1/approve'',
              authorization := Some ''Bearer tok-a1''\<rparr>"

definition req_approve_null :: request where
  "req_approve_null = req_approve\<lparr>json := Some JsonNull\<rparr>"

definition req_approve_u1u2 :: request where
  "req_approve_u1u2 = req_approve\<lparr>json := Some (JsonValue (StringArray [''u1'', ''u2'']))\<rparr>"

definition req_approve_u3 :: request where
  "req_approve_u3 = req_approve\<lparr>json := Some (JsonValue (StringArray [''u3'']))\<rparr>"

definition db_u1u2 :: db where
  "db_u1u2 = \<lparr>users = [admin_row], documents = [doc1_approved],
     document_assignments = [\<lparr>doc_id = ''d1'', user_id = ''u1'', assigned_at = 2\<rparr>,
                             \<lparr>doc_id = ''d1'', user_id = ''u2'', assigned_at = 2\<rparr>],
     storage = []\<rparr>"

definition db_u3 :: db where
  "db_u3 = \<lparr>users = [admin_row], documents = [doc1_approved],
     document_assignments = [\<lparr>doc_id = ''d1'', user_id = ''u3'', assigned_at = 2\<rparr>],
     storage = []\<rparr>"

definition db_u3_u1u2 :: db where
  "db_u3_u1u2 = \<lparr>users = [admin_row], documents = [doc1_approved],
     document_assignments = [\<lparr>doc_id = ''d1'', user_id = ''u3'', assigned_at = 2\<rparr>,
                             \<lparr>doc_id = ''d1'', user_id = ''u1'', assigned_at = 2\<rparr>,
                             \<lparr>doc_id = ''d1'', user_id = ''u2'', assigned_at = 2\<rparr>],
     storage = []\<rparr>"

text \<open>The admin's upload of a two-byte file the PDF library cannot read, the row it creates,
  and the tables after it: with the summary stored, and as they are left when the call to
  the text-generation endpoint rejects.\<close>

definition report_file :: upload_file where
  "report_file = \<lparr>file_name = ''report.pdf'', file_type = [], content = [0x25, 0x50]\<rparr>"

definition req_upload :: request where
  "req_upload =
     req_base\<lparr>req_method := ''POST'', url_pathname := ''/functions/v1/documents/upload'',
              authorization := Some ''Bearer tok-a1'',
              formData := Some \<lparr>form_file = Some report_file, form_title = Some ''Q1 Report''\<rparr>\<rparr>"

definition doc2 :: document where
  "doc2 = \<lparr>id_d = ''d2'', title = ''Q1 Report'', file_url = ''https://files/r2-report.pdf'',
           parsed_text = Some [], summary = None, status = pending, created_at = 2,
           created_by = Some ''a1''\<rparr>"

definition stored_report :: storage_object where
  "stored_report = \<lparr>obj_path = ''r2-report.pdf'', obj_type = ''application/pdf'',
                    obj_bytes = [0x25, 0x50]\<rparr>"

definition db_uploaded :: db where
  "db_uploaded = \<lparr>users = [admin_row], documents = [doc1, doc2\<lparr>summary := Some ''Summary''\<rparr>],
                  document_assignments = [], storage = [stored_report]\<rparr>"

definition db_row_only :: db where
  "db_row_only = \<lparr>users = [admin_row], documents = [doc1, doc2],
                  document_assignments = [], storage = [stored_report]\<rparr>"

text \<open>The environment \<open>env_ok\<close> with the endpoint unreachable: \<^verbatim>\<open>fetch\<close> rejects.\<close>

definition env_unreachable :: env where
  "env_unreachable = env_ok\<lparr>fetch := (\<lambda>u p. Rejects)\<rparr>"

section \<open>Properties\<close>

subsection \<open>Text extractor\<close>

lemma dropWhile_snoc_ws:
  "P c \<Longrightarrow> dropWhile P (rev (dropWhile P (s @ [c]))) = dropWhile P (rev (dropWhile P s))"
  by (induction s) auto

lemma trim_snoc_ws: "isWhiteSpace c \<Longrightarrow> trim (s @ [c]) = trim s"
  by (simp add: trim_def dropWhile_snoc_ws)

lemma isWhiteSpace_LF: "isWhiteSpace (CHR 0x0A)"
  by (simp add: isWhiteSpace_def)

lemma trim_newline: "trim (s @ newline) = trim s"
  by (simp add: newline_def trim_snoc_ws isWhiteSpace_LF)

lemma concat_join: "ts \<noteq> [] \<Longrightarrow> concat (map (\<lambda>t. t @ sep) ts) = join sep ts @ sep"
  by (induction sep ts rule: join.induct) auto

lemma pages_loop_those:
  "pages_loop pages acc =
     map_option (\<lambda>texts. acc @ concat (map (\<lambda>items. join '' '' items @ newline) texts)) (those pages)"
proof (induction pages acc rule: pages_loop.induct)
  case (1 acc)
  show ?case by simp
next
  case (2 ps acc)
  show ?case by simp
next
  case (3 items ps acc)
  then show ?case by (cases "those ps") simp_all
qed

lemma concat_pages:
  "concat (map (\<lambda>items. join '' '' items @ newline) texts) =
   concat (map (\<lambda>t. t @ newline) (map (join '' '') texts))"
  by (simp add: comp_def)

text \<open>
  Claim C9. The extractor returns a string for every byte sequence and lets no exception
  escape: where the PDF library throws, on the document or on a page, the result is the
  empty string; otherwise it is the text of the pages, separated by a newline, with the
  white space around the whole trimmed.
\<close>

theorem parsePdfToText_extract: "parsePdfToText e fileBytes = extract_spec (pdfjs e fileBytes)"
proof (cases "pdfjs e fileBytes")
  case None
  then show ?thesis by (simp add: parsePdfToText_def extract_spec_def)
next
  case (Some pages)
  show ?thesis
  proof (cases "those pages")
    case None
    with Some show ?thesis
      by (simp add: parsePdfToText_def extract_spec_def pages_loop_those)
  next
    case (Some texts)
    note th = this
    show ?thesis
    proof (cases "texts = []")
      case True
      with th \<open>pdfjs e fileBytes = Some pages\<close> show ?thesis
        by (simp add: parsePdfToText_def extract_spec_def pages_loop_those)
    next
      case False
      then have "map (join '' '') texts \<noteq> []" by simp
      then have "concat (map (\<lambda>items. join '' '' items @ newline) texts)
                 = join newline (map (join '' '') texts) @ newline"
        using concat_join [of "map (join '' '') texts" newline] by (simp add: comp_def)
      with th \<open>pdfjs e fileBytes = Some pages\<close> show ?thesis
        by (simp add: parsePdfToText_def extract_spec_def pages_loop_those trim_newline)
    qed
  qed
qed

subsection \<open>Admin gate\<close>

lemma handleUpload_gate:
  "\<not> isAdmin user \<Longrightarrow>
   handleUpload e req user st = (Inr \<lparr>http_status = 403, body = Text ''Forbidden''\<rparr>, st)"
  by (simp add: handleUpload_def)

lemma handlePending_gate:
  "\<not> isAdmin user \<Longrightarrow>
   handlePending e req user st = (Inr \<lparr>http_status = 403, body = Text ''Forbidden''\<rparr>, st)"
  by (simp add: handlePending_def)

lemma handleApprove_gate:
  "\<not> isAdmin user \<Longrightarrow>
   handleApprove e req user i st = (Inr \<lparr>http_status = 403, body = Text ''Forbidden''\<rparr>, st)"
  by (simp add: handleApprove_def)

text \<open>
  Claim C1. A request to POST /upload, GET /pending or POST /<id>/approve whose caller
  does not resolve to the admin role is answered 403 Forbidden, and the tables are what
  they were: no file stored, no document row created or updated, no assignment inserted.
\<close>

theorem non_admin_forbidden:
  assumes "\<not> isAdmin (getAuthUser e req)"
    and "(req_method req = ''POST'' \<and> route_path req = ''/upload'')
         \<or> (req_method req = ''GET'' \<and> route_path req = ''/pending'')
         \<or> (req_method req = ''POST'' \<and> approveMatch (route_path req) = Some i)"
  shows "serve e req st = (Inr \<lparr>http_status = 403, body = Text ''Forbidden''\<rparr>, st)"
  using assms
  by (auto simp add: serve_def Let_def handleUpload_gate handlePending_gate handleApprove_gate)


theorem non_admin_forbidden_witness:
  "\<not> isAdmin (getAuthUser env_ok req_employee_approve)
   \<and> req_method req_employee_approve = ''POST''
   \<and> approveMatch (route_path req_employee_approve) = Some ''d1''
   \<and> serve env_ok req_employee_approve db1
       = (Inr \<lparr>http_status = 403, body = Text ''Forbidden''\<rparr>, db1)"
proof -
  have a: "\<not> isAdmin (getAuthUser env_ok req_employee_approve)"
    by (simp add: isAdmin_def getAuthUser_def req_employee_approve_def req_base_def truthy_def)
  have m: "req_method req_employee_approve = ''POST''"
    by (simp add: req_employee_approve_def)
  have r: "approveMatch (route_path req_employee_approve) = Some ''d1''"
    by (simp add: route_path_def req_employee_approve_def req_base_def function_prefix_def
        approveMatch_def isLineTerminator_def)
  from non_admin_forbidden [of env_ok req_employee_approve "''d1''" db1] a m r
  show ?thesis by simp
qed

subsection \<open>Access resolver\<close>

text \<open>
  Claim C8, as stated, fails where a mock header is carried with an empty value: the
  resolver tests the two values for truthiness, so a request claiming the role admin with
  an empty \<^verbatim>\<open>x-mock-user-id\<close> resolves to no identity and is not an admin.
\<close>

theorem mock_blank_id_counterexample:
  "authorization req_mock_admin_blank_id = None
   \<and> x_mock_role req_mock_admin_blank_id = Some ''admin''
   \<and> x_mock_user_id req_mock_admin_blank_id = Some []
   \<and> getAuthUser env_ok req_mock_admin_blank_id = None
   \<and> \<not> isAdmin (getAuthUser env_ok req_mock_admin_blank_id)"
  by (simp add: req_mock_admin_blank_id_def req_base_def getAuthUser_def isAdmin_def truthy_def)

lemma handleUpload_status:
  "isAdmin user \<Longrightarrow> fst (handleUpload e rq user st) = Inr r \<Longrightarrow> http_status r \<noteq> 403"
  by (auto simp add: handleUpload_def upload_process_def Let_def
      split: option.splits sum.splits prod.splits)

lemma handlePending_status:
  "isAdmin user \<Longrightarrow> fst (handlePending e rq user st) = Inr r \<Longrightarrow> http_status r \<noteq> 403"
  by (auto simp add: handlePending_def split: sum.splits)

lemma handleApprove_status:
  "isAdmin user \<Longrightarrow> fst (handleApprove e rq user i st) = Inr r \<Longrightarrow> http_status r \<noteq> 403"
  by (auto simp add: handleApprove_def Let_def
      split: option.splits prod.splits if_splits approve_json.splits userIds_value.splits)

lemma getAuthUser_mock:
  assumes "case authorization req of None \<Rightarrow> True
           | Some h \<Rightarrow> getUser e (replace_first ''Bearer '' [] h) = None"
    and "x_mock_role req = Some r" and "r \<noteq> []"
    and "x_mock_user_id req = Some u" and "u \<noteq> []"
  shows "getAuthUser e req = Some \<lparr>id_u = u, role = Some r\<rparr>"
  using assms by (simp add: getAuthUser_def truthy_def split: option.splits)

text \<open>
  Claim C8, amended. When the bearer token is absent or fails validation and both mock
  headers are carried with non-empty values, the resolver synthesizes an identity with
  exactly the claimed role and user id; the identity is an admin exactly when the claimed
  role is \<^verbatim>\<open>admin\<close>, and then none of the three admin-only handlers answers 403.
\<close>

theorem mock_headers_identity:
  assumes "case authorization req of None \<Rightarrow> True
           | Some h \<Rightarrow> getUser e (replace_first ''Bearer '' [] h) = None"
    and "x_mock_role req = Some r" and "r \<noteq> []"
    and "x_mock_user_id req = Some u" and "u \<noteq> []"
  shows "getAuthUser e req = Some \<lparr>id_u = u, role = Some r\<rparr>
         \<and> isAdmin (getAuthUser e req) = (r = ''admin'')
         \<and> (r = ''admin'' \<longrightarrow>
              (\<forall>rq i st p.
                 (fst (handleUpload e rq (getAuthUser e req) st) = Inr p \<longrightarrow> http_status p \<noteq> 403)
               \<and> (fst (handlePending e rq (getAuthUser e req) st) = Inr p \<longrightarrow> http_status p \<noteq> 403)
               \<and> (fst (handleApprove e rq (getAuthUser e req) i st) = Inr p \<longrightarrow> http_status p \<noteq> 403)))"
proof -
  have u: "getAuthUser e req = Some \<lparr>id_u = u, role = Some r\<rparr>"
    using assms by (rule getAuthUser_mock)
  have a: "isAdmin (getAuthUser e req) = (r = ''admin'')"
    by (simp add: u isAdmin_def)
  show ?thesis
    using u a handleUpload_status handlePending_status handleApprove_status by blast
qed

theorem mock_headers_identity_witness:
  "authorization req_mock_admin = None
   \<and> x_mock_role req_mock_admin = Some ''admin''
   \<and> x_mock_user_id req_mock_admin = Some ''a1''
   \<and> getAuthUser env_ok req_mock_admin = Some \<lparr>id_u = ''a1'', role = Some ''admin''\<rparr>
   \<and> isAdmin (getAuthUser env_ok req_mock_admin)"
proof -
  have h: "authorization req_mock_admin = None" "x_mock_role req_mock_admin = Some ''admin''"
    "x_mock_user_id req_mock_admin = Some ''a1''"
    by (simp_all add: req_mock_admin_def req_base_def)
  have t: "case authorization req_mock_admin of None \<Rightarrow> True
           | Some h \<Rightarrow> getUser env_ok (replace_first ''Bearer '' [] h) = None"
    by (simp add: h)
  from mock_headers_identity [where req = req_mock_admin and e = env_ok and r = "''admin''"
      and u = "''a1''", OF t h(2) _ h(3)] h
  show ?thesis by auto
qed

subsection \<open>Visibility query\<close>

lemma filter_order_desc: "filter P (order_desc ds) = order_desc (filter P ds)"
  by (simp add: order_desc_def rev_filter [symmetric] filter_sort)

lemma assigned_iff:
  "i \<in> set (map fst (map assignment_key (filter (\<lambda>a. user_id a = u) as)))
   \<longleftrightarrow> (i, u) \<in> set (map assignment_key as)"
  by (force simp add: assignment_key_def)

lemma auth_uid_no_identity: "getAuthUser e req = None \<Longrightarrow> auth_uid e req = None"
  by (auto simp add: getAuthUser_def auth_uid_def split: option.splits if_splits)

lemma select_documents_no_uid:
  "select_documents e c None st s =
     (case refuses e c of Some m \<Rightarrow> Inl (refused m) | None \<Rightarrow> Inr [])"
  by (simp add: select_documents_def may_select_def db_admin_def order_desc_def
      split: option.splits)

lemma approvedForUserMatch_not_pending:
  "approvedForUserMatch p = Some u \<Longrightarrow> p \<noteq> ''/pending''"
  by (auto simp add: approvedForUserMatch_def split: if_splits)

text \<open>
  Claim C7. GET /approved/<userId> serves documents only to a caller with an identity: a
  request that resolves to no identity (no valid token, no mock headers) reaches the
  datastore with no \<^verbatim>\<open>auth.uid()\<close>, the policies on \<^verbatim>\<open>documents\<close> let it read no row,
  and the answer is the empty array, or the datastore's error, whatever is approved and
  assigned to that user id.
\<close>

theorem no_identity_no_documents:
  assumes "getAuthUser e req = None"
    and "req_method req = ''GET''" and "approvedForUserMatch (route_path req) = Some u"
  shows "serve e req st =
           (case refuses e select_approved of
              None \<Rightarrow> (Inr \<lparr>http_status = 200, body = RowsJson []\<rparr>, st)
            | Some m \<Rightarrow> (Inr \<lparr>http_status = 500, body = DbErrorJson (refused m)\<rparr>, st))"
proof -
  have "route_path req \<noteq> ''/pending''"
    using assms(3) by (rule approvedForUserMatch_not_pending)
  then have "serve e req st = handleApprovedForUser e req None u st"
    using assms by (simp add: serve_def Let_def)
  moreover have "auth_uid e req = None"
    using assms(1) by (rule auth_uid_no_identity)
  ultimately show ?thesis
    by (simp add: handleApprovedForUser_def select_documents_no_uid split: option.splits)
qed

theorem no_identity_no_documents_witness:
  "getAuthUser env_ok req_anonymous_list = None
   \<and> req_method req_anonymous_list = ''GET''
   \<and> approvedForUserMatch (route_path req_anonymous_list) = Some ''u3''
   \<and> listVisibleFor db_u3 ''u3'' = [select_cols doc1_approved]
   \<and> serve env_ok req_anonymous_list db_u3
       = (Inr \<lparr>http_status = 200, body = RowsJson []\<rparr>, db_u3)"
proof -
  have a: "getAuthUser env_ok req_anonymous_list = None"
    by (simp add: getAuthUser_def req_anonymous_list_def req_base_def)
  have m: "req_method req_anonymous_list = ''GET''"
    by (simp add: req_anonymous_list_def req_base_def)
  have r: "approvedForUserMatch (route_path req_anonymous_list) = Some ''u3''"
    by (simp add: req_anonymous_list_def req_base_def route_path_def function_prefix_def
        approvedForUserMatch_def isLineTerminator_def)
  have n: "refuses env_ok select_approved = None"
    by (simp add: env_ok_def)
  have v: "listVisibleFor db_u3 ''u3'' = [select_cols doc1_approved]"
    by (simp add: listVisibleFor_def db_u3_def doc1_approved_def doc1_def order_desc_def
        assignment_key_def)
  from no_identity_no_documents [OF a m r, of db_u3] n
  have "serve env_ok req_anonymous_list db_u3
          = (Inr \<lparr>http_status = 200, body = RowsJson []\<rparr>, db_u3)"
    by simp
  with a m r v show ?thesis by simp
qed

text \<open>For a caller who is the user asked for, or an admin of the datastore, the handler
  answers with the list of the specification.\<close>

lemma may_select_assigned:
  assumes "db_admin st uid \<or> uid = Some u"
    and "status d = approved" and "(id_d d, u) \<in> set (map assignment_key (document_assignments st))"
  shows "may_select st uid d"
  using assms by (auto simp add: may_select_def assignment_key_def list_ex_iff)

lemma handleApprovedForUser_rows:
  assumes ok: "refuses e select_approved = None" "refuses e select_assignments = None"
    and rd: "db_admin st (auth_uid e req) \<or> auth_uid e req = Some u"
  shows "handleApprovedForUser e req user u st
           = (Inr \<lparr>http_status = 200, body = RowsJson (listVisibleFor st u)\<rparr>, st)"
proof -
  have "filter (\<lambda>d. (status d = approved \<and> may_select st (auth_uid e req) d)
                   \<and> (id_d d, u) \<in> set (map assignment_key (document_assignments st)))
          (order_desc (documents st))
        = filter (\<lambda>d. status d = approved
                   \<and> (id_d d, u) \<in> set (map assignment_key (document_assignments st)))
          (order_desc (documents st))"
    using may_select_assigned [OF rd] by (intro filter_cong) auto
  then have "filter (\<lambda>v. v_id v \<in> set (map fst (map assignment_key
                  (filter (\<lambda>a. user_id a = u) (document_assignments st)))))
          (map select_cols (order_desc
             (filter (\<lambda>d. status d = approved \<and> may_select st (auth_uid e req) d) (documents st))))
        = listVisibleFor st u"
    by (simp add: listVisibleFor_def filter_map comp_def select_cols_def assigned_iff
        filter_order_desc [symmetric] conj_commute del: set_map map_map)
  with ok show ?thesis
    by (simp add: handleApprovedForUser_def select_documents_def select_assignments_op_def
        del: set_map map_map)
qed

subsection \<open>Approval and assignment\<close>

lemma set_approved_idem: "set_approved i (set_approved i ds) = set_approved i ds"
  by (induction ds) (simp_all add: set_approved_def)

lemma set_approved_ids: "map id_d (set_approved i ds) = map id_d ds"
  by (induction ds) (simp_all add: set_approved_def)

lemma status_updated_simps:
  "document_assignments (status_updated st uid i) = document_assignments st"
  "users (status_updated st uid i) = users st"
  "storage (status_updated st uid i) = storage st"
  "map id_d (documents (status_updated st uid i)) = map id_d (documents st)"
  by (simp_all add: status_updated_def set_approved_ids)

lemma db_admin_users: "users st' = users st \<Longrightarrow> db_admin st' uid = db_admin st uid"
  by (cases uid) (simp_all add: db_admin_def)

lemma status_updated_again:
  assumes "users st1 = users st" and "documents st1 = documents (status_updated st uid i)"
  shows "status_updated st1 uid i = st1"
proof (cases "db_admin st uid")
  case True
  with assms show ?thesis
    by (simp add: status_updated_def db_admin_users [OF assms(1)] set_approved_idem)
next
  case False
  with assms show ?thesis
    by (simp add: status_updated_def db_admin_users [OF assms(1)])
qed

lemma update_status_effect:
  "update_documents e update_status uid st i (\<lambda>d. d\<lparr>status := approved\<rparr>) =
     (case refuses e update_status of
        Some m \<Rightarrow> (Some (refused m), st)
      | None \<Rightarrow> (None, status_updated st uid i))"
  by (simp add: update_documents_def status_updated_def set_approved_def split: option.splits)

lemma handleApprove_strings:
  assumes "isAdmin user" and "json req = Some (JsonValue (StringArray us))"
  shows "handleApprove e req user i st =
     (case refuses e update_status of
        Some m \<Rightarrow> (Inr \<lparr>http_status = 500, body = DbErrorJson (refused m)\<rparr>, st)
      | None \<Rightarrow>
          if us = [] then
            (Inr \<lparr>http_status = 200, body = OkJson\<rparr>, status_updated st (auth_uid e req) i)
          else
            (case insert_assignments_op e (status_updated st (auth_uid e req) i)
                    (map (\<lambda>uid. (i, uid)) us) of
               (Some insErr, st2) \<Rightarrow> (Inr \<lparr>http_status = 500, body = DbErrorJson insErr\<rparr>, st2)
             | (None, st2) \<Rightarrow> (Inr \<lparr>http_status = 200, body = OkJson\<rparr>, st2)))"
  using assms by (simp add: handleApprove_def update_status_effect split: option.splits)

lemma handleApprove_ok_admin:
  "handleApprove e req user i st = (Inr \<lparr>http_status = 200, body = OkJson\<rparr>, st') \<Longrightarrow> isAdmin user"
  by (cases "isAdmin user") (simp_all add: handleApprove_def)

lemma insert_assignments_ok:
  "insert_assignments_op e st rows = (None, st') \<Longrightarrow>
     st' = st\<lparr>document_assignments := document_assignments st @
              map (\<lambda>r. \<lparr>doc_id = fst r, user_id = snd r, assigned_at = now e\<rparr>) rows\<rparr>
     \<and> distinct rows
     \<and> list_all (\<lambda>r. r \<notin> set (map assignment_key (document_assignments st))) rows
     \<and> list_all (\<lambda>r. fst r \<in> set (map id_d (documents st))) rows"
  by (auto simp add: insert_assignments_op_def split: option.splits if_splits)

lemma handleApprove_ok_effect:
  assumes ok: "handleApprove e req user i st = (Inr \<lparr>http_status = 200, body = OkJson\<rparr>, st')"
    and us: "json req = Some (JsonValue (StringArray us))"
  shows "st' = (status_updated st (auth_uid e req) i)
                 \<lparr>document_assignments := document_assignments st @
                    map (\<lambda>u. \<lparr>doc_id = i, user_id = u, assigned_at = now e\<rparr>) us\<rparr>
         \<and> distinct us
         \<and> (\<forall>u \<in> set us. (i, u) \<notin> set (map assignment_key (document_assignments st)))
         \<and> (us \<noteq> [] \<longrightarrow> i \<in> set (map id_d (documents st)))"
proof -
  have adm: "isAdmin user" using ok by (rule handleApprove_ok_admin)
  note run = handleApprove_strings [OF adm us, of e i st]
  have up: "refuses e update_status = None"
    using ok by (simp add: run split: option.splits)
  let ?st1 = "status_updated st (auth_uid e req) i"
  show ?thesis
  proof (cases "us = []")
    case True
    with ok up have "st' = ?st1" by (simp add: run)
    with True show ?thesis by (simp add: status_updated_simps)
  next
    case False
    with ok up have ins: "insert_assignments_op e ?st1 (map (\<lambda>uid. (i, uid)) us) = (None, st')"
      by (auto simp add: run split: prod.splits option.splits)
    note eff = insert_assignments_ok [OF ins]
    from eff have 1: "st' = ?st1\<lparr>document_assignments := document_assignments st @
                    map (\<lambda>u. \<lparr>doc_id = i, user_id = u, assigned_at = now e\<rparr>) us\<rparr>"
      by (simp add: comp_def status_updated_simps)
    from eff have 2: "distinct us"
      by (simp add: distinct_map)
    from eff have 3: "\<forall>u \<in> set us. (i, u) \<notin> set (map assignment_key (document_assignments st))"
      by (simp add: list_all_iff status_updated_simps)
    from eff False have 4: "i \<in> set (map id_d (documents st))"
      by (cases us) (simp_all add: status_updated_simps del: set_map)
    from 1 2 3 4 show ?thesis by blast
  qed
qed

text \<open>
  An admin's approve request whose body is absent or does not parse (\<open>json req = None\<close>)
  or is a JSON value other than \<^verbatim>\<open>null\<close> without the field userIds is handled as the
  empty user list is: no assignment row is inserted, no validation error (400) is produced,
  and, the datastore carrying out the status update for one of its admins, the document's
  status is set to approved and \<^verbatim>\<open>{ok: true}\<close> is returned.
\<close>

lemma handleApprove_no_list:
  assumes "isAdmin user"
    and "json req = None \<or> json req = Some (JsonValue Absent)
         \<or> json req = Some (JsonValue IsNull) \<or> json req = Some (JsonValue (StringArray []))"
  shows "handleApprove e req user i st =
     (case refuses e update_status of
        Some m \<Rightarrow> (Inr \<lparr>http_status = 500, body = DbErrorJson (refused m)\<rparr>, st)
      | None \<Rightarrow> (Inr \<lparr>http_status = 200, body = OkJson\<rparr>,
                 status_updated st (auth_uid e req) i))"
  using assms by (auto simp add: handleApprove_def update_status_effect split: option.splits)

lemma approve_without_user_list:
  assumes adm: "isAdmin user"
    and bad: "json req = None \<or> json req = Some (JsonValue Absent)"
  shows "handleApprove e req user i st
           = handleApprove e (req\<lparr>json := Some (JsonValue (StringArray []))\<rparr>) user i st
         \<and> document_assignments (snd (handleApprove e req user i st)) = document_assignments st
         \<and> (\<forall>b. fst (handleApprove e req user i st) \<noteq> Inr \<lparr>http_status = 400, body = b\<rparr>)
         \<and> (refuses e update_status = None \<longrightarrow> db_admin st (auth_uid e req) \<longrightarrow>
               handleApprove e req user i st
                 = (Inr \<lparr>http_status = 200, body = OkJson\<rparr>,
                    st\<lparr>documents := set_approved i (documents st)\<rparr>))"
proof -
  have 1: "handleApprove e req user i st =
     (case refuses e update_status of
        Some m \<Rightarrow> (Inr \<lparr>http_status = 500, body = DbErrorJson (refused m)\<rparr>, st)
      | None \<Rightarrow> (Inr \<lparr>http_status = 200, body = OkJson\<rparr>,
                 status_updated st (auth_uid e req) i))"
    using bad by (intro handleApprove_no_list [OF adm]) blast
  have u: "auth_uid e (req\<lparr>json := Some (JsonValue (StringArray []))\<rparr>) = auth_uid e req"
    by (simp add: auth_uid_def)
  have 2: "handleApprove e (req\<lparr>json := Some (JsonValue (StringArray []))\<rparr>) user i st =
     (case refuses e update_status of
        Some m \<Rightarrow> (Inr \<lparr>http_status = 500, body = DbErrorJson (refused m)\<rparr>, st)
      | None \<Rightarrow> (Inr \<lparr>http_status = 200, body = OkJson\<rparr>,
                 status_updated st (auth_uid e req) i))"
    using handleApprove_no_list [OF adm, of "req\<lparr>json := Some (JsonValue (StringArray []))\<rparr>" e i st]
    by (simp add: u split: option.splits)
  show ?thesis
    unfolding 2 unfolding 1
    by (simp add: status_updated_simps status_updated_def split: option.splits)
qed

text \<open>
  Claim C10 says that an admin's approve request whose body lacks the field userIds is
  handled as the empty list, with the status set and \<^verbatim>\<open>{ok: true}\<close> returned. The body
  \<^verbatim>\<open>null\<close> is valid JSON without that field: \<^verbatim>\<open>req.json()\<close> resolves, the
  \<^verbatim>\<open>catch\<close> does not fire, and reading \<^verbatim>\<open>body.userIds\<close> throws before the status
  update, so the request ends in the exception with the document still pending.
\<close>

theorem approve_null_body_throws:
  "isAdmin admin
   \<and> json req_approve_null = Some JsonNull
   \<and> handleApprove env_ok req_approve_null admin ''d1'' db1 = (Inl TypeError, db1)
   \<and> map status (documents db1) = [pending]"
  by (simp add: handleApprove_def isAdmin_def admin_def req_approve_null_def req_approve_def
      req_base_def db1_def doc1_def)

lemma count_inserted:
  "distinct us \<Longrightarrow> u \<in> set us \<Longrightarrow>
   length (filter (\<lambda>a. assignment_key a = (i, u))
             (map (\<lambda>u. \<lparr>doc_id = i, user_id = u, assigned_at = t\<rparr>) us)) = 1"
  by (induction us) (auto simp add: assignment_key_def filter_empty_conv)

lemma count_absent:
  "k \<notin> set (map assignment_key as) \<Longrightarrow> filter (\<lambda>a. assignment_key a = k) as = []"
  by (auto simp add: filter_empty_conv)

lemma insert_assignments_duplicate:
  assumes "r \<in> set rows" and "r \<in> set (map assignment_key (document_assignments st))"
  shows "insert_assignments_op e st rows =
           (Some (case refuses e insert_assignments of
                    Some m \<Rightarrow> refused m | None \<Rightarrow> unique_violation), st)"
  using assms by (auto simp add: insert_assignments_op_def list_all_iff split: option.splits)

lemma env_ok_fields:
  "GEMINI_API_KEY env_ok = Some ''key''" "getUser env_ok = provider"
  "randomUUID env_ok = ''r2''" "getPublicUrl env_ok p = ''https://files/'' @ p"
  "pdfjs env_ok b = None" "fetch env_ok u q = Resolves True (Candidates (Some '' Summary ''))"
  "gen_random_uuid env_ok = ''d2''" "now env_ok = 2" "refuses env_ok c = None"
  by (simp_all add: env_ok_def)

lemma env_unreachable_fields:
  "GEMINI_API_KEY env_unreachable = Some ''key''" "getUser env_unreachable = provider"
  "randomUUID env_unreachable = ''r2''" "getPublicUrl env_unreachable p = ''https://files/'' @ p"
  "pdfjs env_unreachable b = None" "fetch env_unreachable u q = Rejects"
  "gen_random_uuid env_unreachable = ''d2''" "now env_unreachable = 2"
  "refuses env_unreachable c = None"
  by (simp_all add: env_unreachable_def env_ok_def)

lemma provider_token:
  assumes "getUser e = provider"
  shows "authorization r = Some ''Bearer tok-a1'' \<Longrightarrow> auth_uid e r = Some ''a1''"
    and "authorization r = Some ''Bearer tok-u3'' \<Longrightarrow> auth_uid e r = Some ''u3''"
  by (simp_all add: auth_uid_def truthy_def assms provider_def)

lemma admin_token:
  "authorization r = Some ''Bearer tok-a1'' \<Longrightarrow> auth_uid env_ok r = Some ''a1''"
  by (rule provider_token) (simp add: env_ok_fields)

lemma db_admin_a1: "users st = [admin_row] \<Longrightarrow> db_admin st (Some ''a1'')"
  by (simp add: db_admin_def admin_row_def)

lemma approve_run:
  assumes "authorization r = Some ''Bearer tok-a1''"
    and "json r = Some (JsonValue (StringArray us))" and "us \<noteq> []"
    and "users st = [admin_row]"
  shows "handleApprove env_ok r admin i st =
           (case insert_assignments_op env_ok (st\<lparr>documents := set_approved i (documents st)\<rparr>)
                   (map (\<lambda>uid. (i, uid)) us) of
              (Some insErr, st2) \<Rightarrow> (Inr \<lparr>http_status = 500, body = DbErrorJson insErr\<rparr>, st2)
            | (None, st2) \<Rightarrow> (Inr \<lparr>http_status = 200, body = OkJson\<rparr>, st2))"
proof -
  have a: "isAdmin admin" by (simp add: isAdmin_def admin_def)
  have n: "refuses env_ok update_status = None" by (simp add: env_ok_def)
  have u: "status_updated st (auth_uid env_ok r) i = st\<lparr>documents := set_approved i (documents st)\<rparr>"
    by (simp add: status_updated_def admin_token [OF assms(1)] db_admin_a1 [OF assms(4)])
  show ?thesis
    using assms(3) by (simp add: handleApprove_strings [OF a assms(2)] n u)
qed

lemma approve_u1u2_run:
  "handleApprove env_ok req_approve_u1u2 admin ''d1'' db1
     = (Inr \<lparr>http_status = 200, body = OkJson\<rparr>, db_u1u2)"
proof -
  have "handleApprove env_ok req_approve_u1u2 admin ''d1'' db1 =
           (case insert_assignments_op env_ok
                   (db1\<lparr>documents := set_approved ''d1'' (documents db1)\<rparr>)
                   (map (\<lambda>uid. (''d1'', uid)) [''u1'', ''u2'']) of
              (Some insErr, st2) \<Rightarrow> (Inr \<lparr>http_status = 500, body = DbErrorJson insErr\<rparr>, st2)
            | (None, st2) \<Rightarrow> (Inr \<lparr>http_status = 200, body = OkJson\<rparr>, st2))"
    by (rule approve_run)
      (simp_all add: req_approve_u1u2_def req_approve_def req_base_def db1_def)
  then show ?thesis
    by (simp add: insert_assignments_op_def set_approved_def env_ok_def db1_def db_u1u2_def
        doc1_def doc1_approved_def assignment_key_def)
qed

text \<open>
  Claim C2, as stated, fails in its last part: approving document d1 for u1 and u2 twice,
  the second call is answered 500 with the unique violation of the datastore, not with
  success.
\<close>

theorem counterexample_second_approve_fails:
  "handleApprove env_ok req_approve_u1u2 admin ''d1'' db1
     = (Inr \<lparr>http_status = 200, body = OkJson\<rparr>, db_u1u2)
   \<and> handleApprove env_ok req_approve_u1u2 admin ''d1'' db_u1u2
     = (Inr \<lparr>http_status = 500, body = DbErrorJson unique_violation\<rparr>, db_u1u2)"
proof -
  have "handleApprove env_ok req_approve_u1u2 admin ''d1'' db_u1u2 =
           (case insert_assignments_op env_ok
                   (db_u1u2\<lparr>documents := set_approved ''d1'' (documents db_u1u2)\<rparr>)
                   (map (\<lambda>uid. (''d1'', uid)) [''u1'', ''u2'']) of
              (Some insErr, st2) \<Rightarrow> (Inr \<lparr>http_status = 500, body = DbErrorJson insErr\<rparr>, st2)
            | (None, st2) \<Rightarrow> (Inr \<lparr>http_status = 200, body = OkJson\<rparr>, st2))"
    by (rule approve_run)
      (simp_all add: req_approve_u1u2_def req_approve_def req_base_def db_u1u2_def)
  then have "handleApprove env_ok req_approve_u1u2 admin ''d1'' db_u1u2
     = (Inr \<lparr>http_status = 500, body = DbErrorJson unique_violation\<rparr>, db_u1u2)"
    by (simp add: insert_assignments_op_def set_approved_def env_ok_def db_u1u2_def
        doc1_def doc1_approved_def assignment_key_def)
  with approve_u1u2_run show ?thesis by simp
qed

text \<open>
  Claim C2, amended. After an approve call that succeeded with a non-empty user list, the
  table holds exactly one assignment row per (document, user) pair of the list; a second
  call with the same list inserts nothing, the insert being rejected as a whole, and is
  answered 500 with the datastore's error (the unique violation when the datastore refuses
  nothing else). The assignment table stays as the first call left it, and so do all
  tables when the datastore sees the same caller in both calls.
\<close>

theorem approve_twice:
  assumes first: "handleApprove e1 req user i st = (Inr \<lparr>http_status = 200, body = OkJson\<rparr>, st1)"
    and us: "json req = Some (JsonValue (StringArray us))"
    and ne: "us \<noteq> []"
  shows "(\<forall>u \<in> set us.
            length (filter (\<lambda>a. assignment_key a = (i, u)) (document_assignments st1)) = 1)
         \<and> fst (handleApprove e2 req user i st1)
             = Inr \<lparr>http_status = 500,
                    body = DbErrorJson
                      (case refuses e2 update_status of
                         Some m \<Rightarrow> refused m
                       | None \<Rightarrow>
                           (case refuses e2 insert_assignments of
                              Some m \<Rightarrow> refused m
                            | None \<Rightarrow> unique_violation))\<rparr>
         \<and> document_assignments (snd (handleApprove e2 req user i st1))
             = document_assignments st1
         \<and> (auth_uid e2 req = auth_uid e1 req \<longrightarrow> snd (handleApprove e2 req user i st1) = st1)"
proof -
  have adm: "isAdmin user" using first by (rule handleApprove_ok_admin)
  note eff = handleApprove_ok_effect [OF first us]
  let ?up1 = "status_updated st (auth_uid e1 req) i"
  from eff have st1: "st1 = ?up1\<lparr>document_assignments := document_assignments st @
                    map (\<lambda>u. \<lparr>doc_id = i, user_id = u, assigned_at = now e1\<rparr>) us\<rparr>"
    by blast
  from eff have dist: "distinct us"
    and fresh: "\<forall>u \<in> set us. (i, u) \<notin> set (map assignment_key (document_assignments st))"
    by blast+
  have asg: "document_assignments st1 = document_assignments st @
                    map (\<lambda>u. \<lparr>doc_id = i, user_id = u, assigned_at = now e1\<rparr>) us"
    by (simp add: st1)
  have count: "\<forall>u \<in> set us.
            length (filter (\<lambda>a. assignment_key a = (i, u)) (document_assignments st1)) = 1"
  proof
    fix u assume u: "u \<in> set us"
    with fresh have "filter (\<lambda>a. assignment_key a = (i, u)) (document_assignments st) = []"
      by (intro count_absent) blast
    then show "length (filter (\<lambda>a. assignment_key a = (i, u)) (document_assignments st1)) = 1"
      using count_inserted [OF dist u, of i "now e1"] by (simp add: asg)
  qed
  let ?up2 = "status_updated st1 (auth_uid e2 req) i"
  obtain u0 where u0: "u0 \<in> set us" using ne by (cases us) auto
  have dup: "(i, u0) \<in> set (map (\<lambda>uid. (i, uid)) us)"
    "(i, u0) \<in> set (map assignment_key (document_assignments ?up2))"
    using u0 by (auto simp add: status_updated_simps asg assignment_key_def image_iff)
  have ins: "insert_assignments_op e2 ?up2 (map (\<lambda>uid. (i, uid)) us) =
           (Some (case refuses e2 insert_assignments of
                    Some m \<Rightarrow> refused m | None \<Rightarrow> unique_violation), ?up2)"
    using dup by (rule insert_assignments_duplicate)
  have second: "handleApprove e2 req user i st1
             = (Inr \<lparr>http_status = 500,
                     body = DbErrorJson
                       (case refuses e2 update_status of
                          Some m \<Rightarrow> refused m
                        | None \<Rightarrow>
                            (case refuses e2 insert_assignments of
                               Some m \<Rightarrow> refused m
                             | None \<Rightarrow> unique_violation))\<rparr>,
                case refuses e2 update_status of Some m \<Rightarrow> st1 | None \<Rightarrow> ?up2)"
    using ne by (simp add: handleApprove_strings [OF adm us] ins split: option.splits)
  have same: "auth_uid e2 req = auth_uid e1 req \<longrightarrow> ?up2 = st1"
  proof
    assume c: "auth_uid e2 req = auth_uid e1 req"
    have "status_updated st1 (auth_uid e1 req) i = st1"
      by (rule status_updated_again [where st = st]) (simp_all add: st1 status_updated_simps)
    with c show "?up2 = st1" by simp
  qed
  from count second same show ?thesis
    by (simp add: status_updated_simps split: option.splits)
qed

theorem approve_twice_witness:
  "handleApprove env_ok req_approve_u1u2 admin ''d1'' db1
     = (Inr \<lparr>http_status = 200, body = OkJson\<rparr>, db_u1u2)
   \<and> json req_approve_u1u2 = Some (JsonValue (StringArray [''u1'', ''u2'']))
   \<and> length (filter (\<lambda>a. assignment_key a = (''d1'', ''u1'')) (document_assignments db_u1u2)) = 1
   \<and> length (filter (\<lambda>a. assignment_key a = (''d1'', ''u2'')) (document_assignments db_u1u2)) = 1
   \<and> handleApprove env_ok req_approve_u1u2 admin ''d1'' db_u1u2
     = (Inr \<lparr>http_status = 500, body = DbErrorJson unique_violation\<rparr>, db_u1u2)"
proof -
  note f = approve_u1u2_run
  have j: "json req_approve_u1u2 = Some (JsonValue (StringArray [''u1'', ''u2'']))"
    by (simp add: req_approve_u1u2_def req_approve_def req_base_def)
  have r: "refuses env_ok update_status = None" "refuses env_ok insert_assignments = None"
    by (simp_all add: env_ok_def)
  note t = approve_twice [OF f j, of env_ok]
  from t r have c: "length (filter (\<lambda>a. assignment_key a = (''d1'', ''u1'')) (document_assignments db_u1u2)) = 1"
    "length (filter (\<lambda>a. assignment_key a = (''d1'', ''u2'')) (document_assignments db_u1u2)) = 1"
    by simp_all
  from t r have "fst (handleApprove env_ok req_approve_u1u2 admin ''d1'' db_u1u2)
                   = Inr \<lparr>http_status = 500, body = DbErrorJson unique_violation\<rparr>"
    and "snd (handleApprove env_ok req_approve_u1u2 admin ''d1'' db_u1u2) = db_u1u2"
    by simp_all
  then have "handleApprove env_ok req_approve_u1u2 admin ''d1'' db_u1u2
     = (Inr \<lparr>http_status = 500, body = DbErrorJson unique_violation\<rparr>, db_u1u2)"
    by (metis prod.collapse)
  with f j c show ?thesis by simp
qed

lemma visible_iff:
  "i \<in> set (map v_id (listVisibleFor st u)) \<longleftrightarrow>
     (\<exists>d \<in> set (documents st). id_d d = i \<and> status d = approved)
     \<and> (i, u) \<in> set (map assignment_key (document_assignments st))"
  by (auto simp add: listVisibleFor_def order_desc_def select_cols_def image_iff)

lemma set_approved_has:
  "(\<exists>d \<in> set (set_approved i ds). id_d d = i \<and> status d = approved) \<longleftrightarrow> i \<in> set (map id_d ds)"
  by (induction ds) (auto simp add: set_approved_def)

lemma approve_u3_runs:
  "handleApprove env_ok req_approve_u3 admin ''d1'' db1
     = (Inr \<lparr>http_status = 200, body = OkJson\<rparr>, db_u3)"
  "handleApprove env_ok req_approve_u1u2 admin ''d1'' db_u3
     = (Inr \<lparr>http_status = 200, body = OkJson\<rparr>, db_u3_u1u2)"
proof -
  have "handleApprove env_ok req_approve_u3 admin ''d1'' db1 =
           (case insert_assignments_op env_ok
                   (db1\<lparr>documents := set_approved ''d1'' (documents db1)\<rparr>)
                   (map (\<lambda>uid. (''d1'', uid)) [''u3'']) of
              (Some insErr, st2) \<Rightarrow> (Inr \<lparr>http_status = 500, body = DbErrorJson insErr\<rparr>, st2)
            | (None, st2) \<Rightarrow> (Inr \<lparr>http_status = 200, body = OkJson\<rparr>, st2))"
    by (rule approve_run)
      (simp_all add: req_approve_u3_def req_approve_def req_base_def db1_def)
  then show "handleApprove env_ok req_approve_u3 admin ''d1'' db1
     = (Inr \<lparr>http_status = 200, body = OkJson\<rparr>, db_u3)"
    by (simp add: insert_assignments_op_def set_approved_def env_ok_def db1_def db_u3_def
        doc1_def doc1_approved_def assignment_key_def)
  have "handleApprove env_ok req_approve_u1u2 admin ''d1'' db_u3 =
           (case insert_assignments_op env_ok
                   (db_u3\<lparr>documents := set_approved ''d1'' (documents db_u3)\<rparr>)
                   (map (\<lambda>uid. (''d1'', uid)) [''u1'', ''u2'']) of
              (Some insErr, st2) \<Rightarrow> (Inr \<lparr>http_status = 500, body = DbErrorJson insErr\<rparr>, st2)
            | (None, st2) \<Rightarrow> (Inr \<lparr>http_status = 200, body = OkJson\<rparr>, st2))"
    by (rule approve_run)
      (simp_all add: req_approve_u1u2_def req_approve_def req_base_def db_u3_def)
  then show "handleApprove env_ok req_approve_u1u2 admin ''d1'' db_u3
     = (Inr \<lparr>http_status = 200, body = OkJson\<rparr>, db_u3_u1u2)"
    by (simp add: insert_assignments_op_def set_approved_def env_ok_def db_u3_def
        db_u3_u1u2_def doc1_def doc1_approved_def assignment_key_def)
qed

text \<open>
  Claim C3, as stated, fails for a user outside the list: document d1, approved for u3 and
  then approved again with the list u1, u2, still appears in the list u3 asks for.
\<close>

theorem counterexample_earlier_assignment_stays:
  "handleApprove env_ok req_approve_u3 admin ''d1'' db1
     = (Inr \<lparr>http_status = 200, body = OkJson\<rparr>, db_u3)
   \<and> handleApprove env_ok req_approve_u1u2 admin ''d1'' db_u3
     = (Inr \<lparr>http_status = 200, body = OkJson\<rparr>, db_u3_u1u2)
   \<and> ''u3'' \<notin> set [''u1'', ''u2'']
   \<and> handleApprovedForUser env_ok req_u3_list (getAuthUser env_ok req_u3_list) ''u3'' db_u3_u1u2
     = (Inr \<lparr>http_status = 200, body = RowsJson [select_cols doc1_approved]\<rparr>, db_u3_u1u2)"
proof -
  have u: "auth_uid env_ok req_u3_list = Some ''u3''"
    by (rule provider_token) (simp_all add: env_ok_fields req_u3_list_def req_base_def)
  have v: "listVisibleFor db_u3_u1u2 ''u3'' = [select_cols doc1_approved]"
    by (simp add: listVisibleFor_def db_u3_u1u2_def doc1_approved_def doc1_def order_desc_def
        assignment_key_def)
  have "handleApprovedForUser env_ok req_u3_list (getAuthUser env_ok req_u3_list) ''u3'' db_u3_u1u2
     = (Inr \<lparr>http_status = 200, body = RowsJson (listVisibleFor db_u3_u1u2 ''u3'')\<rparr>, db_u3_u1u2)"
    by (rule handleApprovedForUser_rows) (simp_all add: env_ok_fields u)
  with v approve_u3_runs show ?thesis by simp
qed

text \<open>
  Claim C3, amended. After an approve call that succeeded with the user list \<open>us\<close>, made
  by a caller who is an admin of the datastore too, so that the status update applied, the
  approved document is in the list visible for \<open>u\<close> for every \<open>u\<close> of the list, and for a
  \<open>u\<close> outside the list exactly when an assignment row for the document and \<open>u\<close> was
  there before the call. The datastore carrying out the two queries, the handler answers
  the user \<open>u\<close>, or an admin of the datastore, with exactly the documents that have the
  status approved and an assignment row for \<open>u\<close>, intersecting the two itself.
\<close>

theorem approve_then_visible:
  assumes ok: "handleApprove e req user i st = (Inr \<lparr>http_status = 200, body = OkJson\<rparr>, st')"
    and us: "json req = Some (JsonValue (StringArray us))"
    and adm: "db_admin st (auth_uid e req)"
    and sel: "refuses e' select_approved = None" "refuses e' select_assignments = None"
  shows "(db_admin st' (auth_uid e' req') \<or> auth_uid e' req' = Some u \<longrightarrow>
            handleApprovedForUser e' req' user' u st'
              = (Inr \<lparr>http_status = 200, body = RowsJson (listVisibleFor st' u)\<rparr>, st'))
         \<and> (u \<in> set us \<longrightarrow> i \<in> set (map v_id (listVisibleFor st' u)))
         \<and> (u \<notin> set us \<longrightarrow>
               (i \<in> set (map v_id (listVisibleFor st' u)) \<longleftrightarrow>
                  i \<in> set (map id_d (documents st))
                  \<and> (i, u) \<in> set (map assignment_key (document_assignments st))))"
proof -
  note eff = handleApprove_ok_effect [OF ok us]
  from eff adm have docs: "documents st' = set_approved i (documents st)"
    and asg: "document_assignments st' = document_assignments st @
                    map (\<lambda>u. \<lparr>doc_id = i, user_id = u, assigned_at = now e\<rparr>) us"
    by (simp_all add: status_updated_def)
  from eff have ex: "us \<noteq> [] \<longrightarrow> i \<in> set (map id_d (documents st))" by blast
  have keys: "(i, u) \<in> set (map assignment_key (document_assignments st')) \<longleftrightarrow>
                (i, u) \<in> set (map assignment_key (document_assignments st)) \<or> u \<in> set us"
    by (auto simp add: asg assignment_key_def image_iff)
  have vis: "i \<in> set (map v_id (listVisibleFor st' u)) \<longleftrightarrow>
               i \<in> set (map id_d (documents st))
               \<and> ((i, u) \<in> set (map assignment_key (document_assignments st)) \<or> u \<in> set us)"
    unfolding visible_iff docs set_approved_has keys ..
  have rows: "db_admin st' (auth_uid e' req') \<or> auth_uid e' req' = Some u \<longrightarrow>
            handleApprovedForUser e' req' user' u st'
              = (Inr \<lparr>http_status = 200, body = RowsJson (listVisibleFor st' u)\<rparr>, st')"
    using sel by (auto intro: handleApprovedForUser_rows)
  have inlist: "u \<in> set us \<longrightarrow> i \<in> set (map v_id (listVisibleFor st' u))"
    using ex vis by auto
  have notin: "u \<notin> set us \<longrightarrow>
               (i \<in> set (map v_id (listVisibleFor st' u)) \<longleftrightarrow>
                  i \<in> set (map id_d (documents st))
                  \<and> (i, u) \<in> set (map assignment_key (document_assignments st)))"
    using vis by blast
  from rows inlist notin show ?thesis by blast
qed

theorem approve_then_visible_witness:
  "handleApprove env_ok req_approve_u1u2 admin ''d1'' db1
     = (Inr \<lparr>http_status = 200, body = OkJson\<rparr>, db_u1u2)
   \<and> json req_approve_u1u2 = Some (JsonValue (StringArray [''u1'', ''u2'']))
   \<and> db_admin db1 (auth_uid env_ok req_approve_u1u2)
   \<and> refuses env_ok select_approved = None \<and> refuses env_ok select_assignments = None
   \<and> db_admin db_u1u2 (auth_uid env_ok req_admin_list)
   \<and> handleApprovedForUser env_ok req_admin_list admin ''u1'' db_u1u2
       = (Inr \<lparr>http_status = 200, body = RowsJson (listVisibleFor db_u1u2 ''u1'')\<rparr>, db_u1u2)
   \<and> ''d1'' \<in> set (map v_id (listVisibleFor db_u1u2 ''u1''))
   \<and> ''d1'' \<in> set (map v_id (listVisibleFor db_u1u2 ''u2''))
   \<and> ''d1'' \<notin> set (map v_id (listVisibleFor db_u1u2 ''u3''))"
proof -
  note f = approve_u1u2_run
  have j: "json req_approve_u1u2 = Some (JsonValue (StringArray [''u1'', ''u2'']))"
    by (simp add: req_approve_u1u2_def req_approve_def req_base_def)
  have a: "db_admin db1 (auth_uid env_ok req_approve_u1u2)"
    by (simp add: admin_token req_approve_u1u2_def req_approve_def db_admin_a1 db1_def)
  have r: "refuses env_ok select_approved = None" "refuses env_ok select_assignments = None"
    by (simp_all add: env_ok_def)
  have rd: "db_admin db_u1u2 (auth_uid env_ok req_admin_list)"
    by (simp add: admin_token req_admin_list_def db_admin_a1 db_u1u2_def)
  have k: "(''d1'', ''u3'') \<notin> set (map assignment_key (document_assignments db1))"
    by (simp add: db1_def)
  note t = approve_then_visible [OF f j a r, of req_admin_list _ admin]
  from t [of "''u1''"] t [of "''u2''"] t [of "''u3''"] k f j a r rd
  show ?thesis by simp
qed

subsection \<open>Upload\<close>

lemma insert_document_ok:
  "insert_document_op e st t url c = Inr (doc, st2) \<Longrightarrow>
     doc \<in> set (documents st2) \<and> status doc = pending \<and> title doc = t \<and> file_url doc = url"
  by (auto simp add: insert_document_op_def Let_def split: option.splits if_splits)

lemma update_documents_keeps:
  assumes "d \<in> set (documents st)"
    and "\<And>x. id_d (f x) = id_d x \<and> title (f x) = title x \<and> file_url (f x) = file_url x
              \<and> status (f x) = status x"
  shows "\<exists>d' \<in> set (documents (snd (update_documents e c uid st i f))).
           id_d d' = id_d d \<and> title d' = title d \<and> file_url d' = file_url d
           \<and> status d' = status d"
proof (cases "refuses e c = None \<and> db_admin st uid")
  case True
  show ?thesis
  proof (cases "id_d d = i")
    case True
    with assms(1) \<open>refuses e c = None \<and> db_admin st uid\<close>
    have "f d \<in> set (documents (snd (update_documents e c uid st i f)))"
      by (force simp add: update_documents_def)
    with assms(2) show ?thesis by blast
  next
    case False
    with assms(1) \<open>refuses e c = None \<and> db_admin st uid\<close>
    have "d \<in> set (documents (snd (update_documents e c uid st i f)))"
      by (force simp add: update_documents_def)
    then show ?thesis by blast
  qed
next
  case False
  then have "snd (update_documents e c uid st i f) = st"
    by (auto simp add: update_documents_def split: option.splits)
  with assms(1) show ?thesis by auto
qed

lemma upload_process_success:
  assumes "upload_process e uid bs t url doc st2 = (Inr r, st')" and "doc \<in> set (documents st2)"
  shows "r = \<lparr>http_status = 200, body = UploadJson (id_d doc) t url ''pending''\<rparr>
         \<and> (\<exists>d \<in> set (documents st'). id_d d = id_d doc \<and> title d = title doc
                \<and> file_url d = file_url doc \<and> status d = status doc)"
proof -
  let ?st3 = "snd (update_documents e update_parsed_text uid st2 (id_d doc)
                  (\<lambda>d. d\<lparr>parsed_text := Some (parsePdfToText e bs)\<rparr>))"
  obtain s where s: "st' = snd (update_documents e update_summary uid ?st3 (id_d doc)
                     (\<lambda>d. d\<lparr>summary := Some s\<rparr>))"
    and r: "r = \<lparr>http_status = 200, body = UploadJson (id_d doc) t url ''pending''\<rparr>"
    using assms(1) by (auto simp add: upload_process_def Let_def split: sum.splits)
  obtain d3 where d3: "d3 \<in> set (documents ?st3)" "id_d d3 = id_d doc" "title d3 = title doc"
    "file_url d3 = file_url doc" "status d3 = status doc"
    using update_documents_keeps [OF assms(2), of "\<lambda>d. d\<lparr>parsed_text := Some (parsePdfToText e bs)\<rparr>"
        e update_parsed_text uid "id_d doc"] by auto
  obtain d4 where "d4 \<in> set (documents st')" "id_d d4 = id_d d3" "title d4 = title d3"
    "file_url d4 = file_url d3" "status d4 = status d3"
    using update_documents_keeps [OF d3(1), of "\<lambda>d. d\<lparr>summary := Some s\<rparr>"
        e update_summary uid "id_d doc"] unfolding s by auto
  with d3 r show ?thesis by auto
qed

text \<open>
  Claim C4. Whenever an upload call returns a success response, a document row with status
  pending is in the table right after the call, whatever extraction and summarization
  gave, and the response carries exactly that row's id, title and file URL and the status
  pending.
\<close>

theorem upload_success_row:
  assumes "handleUpload e req user st = (Inr r, st')" and "http_status r = 200"
  shows "\<exists>d \<in> set (documents st').
           status d = pending
           \<and> r = \<lparr>http_status = 200, body = UploadJson (id_d d) (title d) (file_url d) ''pending''\<rparr>"
proof -
  from assms obtain fm f st1 doc st2 where
    ins: "insert_document_op e st1 (upload_title fm) (publicUrl e f) (map_option id_u user)
            = Inr (doc, st2)"
    and pr: "upload_process e (auth_uid e req) (content f) (upload_title fm) (publicUrl e f) doc st2
               = (Inr r, st')"
    by (auto simp add: handleUpload_def split: if_splits option.splits sum.splits prod.splits)
  note row = insert_document_ok [OF ins]
  from row have "doc \<in> set (documents st2)" by blast
  from upload_process_success [OF pr this] row show ?thesis by auto
qed

text \<open>The admin's upload, up to the inserted row, where \<^verbatim>\<open>fetch\<close> answers and where it
  rejects.\<close>

lemma upload_run:
  assumes "getUser e = provider" and "randomUUID e = ''r2''"
    and "\<And>p. getPublicUrl e p = ''https://files/'' @ p"
    and "gen_random_uuid e = ''d2''" and "now e = 2" and "\<And>c. refuses e c = None"
  shows "handleUpload e req_upload admin db1 =
           upload_process e (Some ''a1'') [0x25, 0x50] ''Q1 Report'' ''https://files/r2-report.pdf''
             (doc2\<lparr>parsed_text := None\<rparr>)
             \<lparr>users = [admin_row], documents = [doc1, doc2\<lparr>parsed_text := None\<rparr>],
              document_assignments = [], storage = [stored_report]\<rparr>"
proof -
  have u: "auth_uid e req_upload = Some ''a1''"
    by (rule provider_token [OF assms(1)]) (simp add: req_upload_def req_base_def)
  show ?thesis
    unfolding handleUpload_def u
    by (simp add: upload_title_def storagePath_def contentType_def
        publicUrl_def isAdmin_def admin_def req_upload_def req_base_def report_file_def
        storage_upload_op_def insert_document_op_def Let_def truthy_def assms(2-)
        db1_def doc1_def doc2_def stored_report_def admin_row_def)
qed

lemma upload_ok_run:
  "handleUpload env_ok req_upload admin db1
     = (Inr \<lparr>http_status = 200,
             body = UploadJson ''d2'' ''Q1 Report'' ''https://files/r2-report.pdf'' ''pending''\<rparr>,
        db_uploaded)"
  by (simp add: upload_run env_ok_fields upload_process_def update_documents_def
      parsePdfToText_def summarizeWithGemini_def truthy_def trim_def isWhiteSpace_def
      db_admin_def admin_row_def db_uploaded_def doc1_def doc2_def)

theorem upload_success_row_witness:
  "handleUpload env_ok req_upload admin db1
     = (Inr \<lparr>http_status = 200,
             body = UploadJson ''d2'' ''Q1 Report'' ''https://files/r2-report.pdf'' ''pending''\<rparr>,
        db_uploaded)
   \<and> (\<exists>d \<in> set (documents db_uploaded).
         status d = pending
         \<and> \<lparr>http_status = 200,
             body = UploadJson ''d2'' ''Q1 Report'' ''https://files/r2-report.pdf'' ''pending''\<rparr>
            = \<lparr>http_status = 200, body = UploadJson (id_d d) (title d) (file_url d) ''pending''\<rparr>)"
  using upload_success_row [OF upload_ok_run] upload_ok_run by simp

text \<open>
  The summarizer gives the empty string without a credential and on a non-success answer;
  it lets an exception escape exactly when \<^verbatim>\<open>fetch\<close> rejects or the body of a success
  answer is not JSON.
\<close>

lemma summarize_no_credential:
  "GEMINI_API_KEY e = None \<or> GEMINI_API_KEY e = Some [] \<Longrightarrow> summarizeWithGemini e t = Inr []"
  by (auto simp add: summarizeWithGemini_def truthy_def)

lemma summarize_non_success:
  "GEMINI_API_KEY e = Some key \<Longrightarrow> fetch e (gemini_url @ key) (prompt t) = Resolves False d \<Longrightarrow>
   summarizeWithGemini e t = Inr []"
  by (simp add: summarizeWithGemini_def)

lemma summarize_throws_iff:
  "summarizeWithGemini e t = Inl x \<longleftrightarrow>
     (\<exists>key. GEMINI_API_KEY e = Some key \<and> key \<noteq> []
        \<and> (fetch e (gemini_url @ key) (prompt t) = Rejects \<and> x = FetchError
           \<or> fetch e (gemini_url @ key) (prompt t) = Resolves True NotJson \<and> x = JsonError))"
  by (auto simp add: summarizeWithGemini_def truthy_def
      split: option.splits fetch_result.splits payload.splits)

text \<open>
  Claim C5 says that a summarization failure never makes the enclosing upload request
  fail. With a credential configured and the endpoint unreachable, \<^verbatim>\<open>fetch\<close> rejects,
  \<open>summarizeWithGemini\<close> catches nothing and lets the exception escape, for every input
  text, and the admin's upload ends in that exception instead of a response.
\<close>

theorem upload_fails_when_fetch_rejects:
  "GEMINI_API_KEY env_unreachable = Some ''key''
   \<and> fetch env_unreachable (gemini_url @ ''key'') (prompt t) = Rejects
   \<and> summarizeWithGemini env_unreachable t = Inl FetchError
   \<and> isAdmin admin
   \<and> fst (handleUpload env_unreachable req_upload admin db1) = Inl FetchError"
proof -
  have a: "isAdmin admin" by (simp add: isAdmin_def admin_def)
  have "GEMINI_API_KEY env_unreachable = Some ''key''
   \<and> fetch env_unreachable (gemini_url @ ''key'') (prompt t) = Rejects
   \<and> summarizeWithGemini env_unreachable t = Inl FetchError
   \<and> fst (handleUpload env_unreachable req_upload admin db1) = Inl FetchError"
    by (simp add: upload_run env_unreachable_fields upload_process_def summarizeWithGemini_def
        truthy_def)
  with a show ?thesis by blast
qed

text \<open>
  Empty extraction. In an upload whose file is stored and whose document row is inserted,
  when extraction yields the empty text the summarizer is called on the fallback
  description that names the file's URL; the upload returns success, with what the
  summarizer gave stored as the summary, whenever that call returns, and ends in the
  summarizer's exception otherwise.
\<close>

lemma upload_empty_extraction:
  assumes adm: "isAdmin user"
    and fm: "formData req = Some fm" and f: "form_file fm = Some f"
    and stored: "storage_upload_op e st (storagePath e f) (content f) (contentType f) = Inr st1"
    and row: "insert_document_op e st1 (upload_title fm) (publicUrl e f) (map_option id_u user)
                = Inr (doc, st2)"
    and empty: "parsePdfToText e (content f) = []"
  shows "handleUpload e req user st =
           (case summarizeWithGemini e (fallback_text (publicUrl e f)) of
              Inl x \<Rightarrow>
                (Inl x,
                 snd (update_documents e update_parsed_text (auth_uid e req) st2 (id_d doc)
                        (\<lambda>d. d\<lparr>parsed_text := Some []\<rparr>)))
            | Inr s \<Rightarrow>
                (Inr \<lparr>http_status = 200,
                      body = UploadJson (id_d doc) (upload_title fm) (publicUrl e f) ''pending''\<rparr>,
                 snd (update_documents e update_summary (auth_uid e req)
                        (snd (update_documents e update_parsed_text (auth_uid e req) st2 (id_d doc)
                                (\<lambda>d. d\<lparr>parsed_text := Some []\<rparr>)))
                        (id_d doc) (\<lambda>d. d\<lparr>summary := Some s\<rparr>))))
         \<and> (\<forall>s. summarizeWithGemini e (fallback_text (publicUrl e f)) = Inr s \<longrightarrow>
                fst (handleUpload e req user st)
                  = Inr \<lparr>http_status = 200,
                         body = UploadJson (id_d doc) (upload_title fm) (publicUrl e f) ''pending''\<rparr>)"
  using assms
  by (simp add: handleUpload_def upload_process_def truthy_def split: sum.splits)

text \<open>
  Claim C6 says that every upload in which extraction yields the empty text still returns
  success. The summarizer is called on the fallback description, as the lemma above shows,
  but with the endpoint unreachable its call to \<^verbatim>\<open>fetch\<close> rejects and the upload of a
  file the PDF library cannot read ends in the exception, the document row left without a
  summary.
\<close>

theorem empty_extraction_upload_fails:
  "parsePdfToText env_unreachable (content report_file) = []
   \<and> publicUrl env_unreachable report_file = ''https://files/r2-report.pdf''
   \<and> summarizeWithGemini env_unreachable (fallback_text ''https://files/r2-report.pdf'')
       = Inl FetchError
   \<and> handleUpload env_unreachable req_upload admin db1 = (Inl FetchError, db_row_only)"
  by (simp add: upload_run env_unreachable_fields upload_process_def update_documents_def
      parsePdfToText_def summarizeWithGemini_def truthy_def publicUrl_def storagePath_def
      report_file_def db_admin_def admin_row_def db_row_only_def doc1_def doc2_def)

end
